theory Spec2Isabelle
  imports Complex_Main
begin

section \<open>Data model\<close>

text \<open>
  The embedding follows \<^verbatim>\<open>src/data_helpers.py\<close>. Python exceptions are values of
  \<open>error\<close>; a function that can raise returns \<open>error + 'a\<close> with \<open>Inl\<close> the exception.
  Python floats are idealised as rationals (exact arithmetic).
\<close>

datatype error =
  ZeroDivisionError | OverflowError | ValueError | IndexError | KeyError
  | UnboundLocalError | SystemExit | RuntimeError

type_synonym 'a triple = "'a \<times> 'a \<times> 'a"

text \<open>
  A SimpleITK image: its size \<open>GetSize()\<close>, its geometry (\<open>GetSpacing()\<close>,
  \<open>GetOrigin()\<close>, \<open>GetDirection()\<close>), its pixel type id and its voxels \<open>GetPixel(i, j, k)\<close>,
  which are meaningful below the size only.
\<close>

record 'p Image =
  Size :: "nat triple"
  Spacing :: "rat triple"
  Origin :: "rat triple"
  Direction :: "rat triple triple"
  PixelIDValue :: int
  Pixel :: "nat triple \<Rightarrow> 'p"

text \<open>An entry of a modality list: an image, or the empty string \<^verbatim>\<open>""\<close> of a missing one.\<close>

datatype 'p entry = Blank | Vol "'p Image"

text \<open>Sequencing of computations that may raise: the first exception wins.\<close>

fun mapM :: "('a \<Rightarrow> error + 'b) \<Rightarrow> 'a list \<Rightarrow> error + 'b list" where
  "mapM f [] = Inr []"
| "mapM f (x # xs) =
     (case f x of
        Inl e \<Rightarrow> Inl e
      | Inr y \<Rightarrow> (case mapM f xs of Inl e \<Rightarrow> Inl e | Inr ys \<Rightarrow> Inr (y # ys)))"

section \<open>Resampler\<close>

datatype interpolator = sitkNearestNeighbor | sitkCosineWindowedSinc

text \<open>The settings of a \<^verbatim>\<open>sitk.ResampleImageFilter\<close>, one field per setter called.\<close>

record ResampleImageFilter =
  OutputSpacing :: "rat triple"
  OutputSize :: "nat triple"
  OutputDirection :: "rat triple triple"
  OutputOrigin :: "rat triple"
  DefaultPixelValue :: int
  Interpolator :: interpolator

text \<open>
  \<^verbatim>\<open>resample.Execute(itk_image)\<close> is SimpleITK's: the output grid is the configured one, and the
  voxel values are whatever the library's interpolation \<open>interp\<close> computes from the settings
  and the input (a parameter of the model).
\<close>

definition Execute ::
  "(ResampleImageFilter \<Rightarrow> 'p Image \<Rightarrow> nat triple \<Rightarrow> 'p) \<Rightarrow> ResampleImageFilter \<Rightarrow> 'p Image \<Rightarrow> 'p Image" where
  "Execute interp flt im =
     \<lparr>Size = OutputSize flt, Spacing = OutputSpacing flt, Origin = OutputOrigin flt,
      Direction = OutputDirection flt, PixelIDValue = PixelIDValue im,
      Pixel = interp flt im\<rparr>"

text \<open>\<^verbatim>\<open>int(np.round(x))\<close>: numpy rounds to the nearest integer, a tie to the even one.\<close>

definition np_round :: "rat \<Rightarrow> int" where
  "np_round x =
     (let f = \<lfloor>x\<rfloor>; d = x - of_int f
      in if d < 1 / 2 then f else if 1 / 2 < d then f + 1 else if even f then f else f + 1)"

text \<open>
  \<^verbatim>\<open>resample_image(itk_image, out_spacing, is_label=False)\<close>. A zero component of
  \<open>out_spacing\<close> raises ZeroDivisionError in the division; a negative size is refused by
  \<^verbatim>\<open>SetSize\<close>, whose argument is a vector of unsigned integers.
\<close>

definition resample_image ::
  "(ResampleImageFilter \<Rightarrow> 'p Image \<Rightarrow> nat triple \<Rightarrow> 'p) \<Rightarrow> 'p Image \<Rightarrow> rat triple \<Rightarrow> bool \<Rightarrow> error + 'p Image" where
  "resample_image interp itk_image out_spacing is_label =
     (case (Spacing itk_image, Size itk_image, out_spacing) of
        ((s0, s1, s2), (n0, n1, n2), (o0, o1, o2)) \<Rightarrow>
          if o0 = 0 \<or> o1 = 0 \<or> o2 = 0 then Inl ZeroDivisionError
          else
            let out0 = np_round (of_nat n0 * (s0 / o0));
                out1 = np_round (of_nat n1 * (s1 / o1));
                out2 = np_round (of_nat n2 * (s2 / o2))
            in if out0 < 0 \<or> out1 < 0 \<or> out2 < 0 then Inl OverflowError
               else Inr (Execute interp
                 \<lparr>OutputSpacing = out_spacing,
                  OutputSize = (nat out0, nat out1, nat out2),
                  OutputDirection = Direction itk_image,
                  OutputOrigin = Origin itk_image,
                  DefaultPixelValue = PixelIDValue itk_image,
                  Interpolator = (if is_label then sitkNearestNeighbor else sitkCosineWindowedSinc)\<rparr>
                 itk_image))"

text \<open>
  \<^verbatim>\<open>resample_all_images(modality, out_spacing, some_missing=False)\<close>: both branches of the
  source are list comprehensions over \<open>modality\<close>, written out one by one.
\<close>

definition resample_all_images ::
  "(ResampleImageFilter \<Rightarrow> 'p Image \<Rightarrow> nat triple \<Rightarrow> 'p) \<Rightarrow> 'p entry list \<Rightarrow> rat triple \<Rightarrow> bool \<Rightarrow> error + 'p entry list" where
  "resample_all_images interp modality out_spacing some_missing =
     (if some_missing
      then mapM (\<lambda>mod_image. case mod_image of
                    Vol im \<Rightarrow> map_sum id Vol (resample_image interp im out_spacing False)
                  | Blank \<Rightarrow> Inr Blank) modality
      else mapM (\<lambda>mod_image. case mod_image of
                    Vol im \<Rightarrow> map_sum id Vol (resample_image interp im out_spacing False)
                  | Blank \<Rightarrow> Inr Blank) modality)"

section \<open>Geometric cropper\<close>

text \<open>
  \<^verbatim>\<open>image.TransformIndexToPhysicalPoint((i, j, k))\<close>: origin plus direction times the
  index scaled by the spacing.
\<close>

definition TransformIndexToPhysicalPoint :: "'p Image \<Rightarrow> int triple \<Rightarrow> rat triple" where
  "TransformIndexToPhysicalPoint im idx =
     (case (Origin im, Spacing im, Direction im, idx) of
        ((g0, g1, g2), (s0, s1, s2), ((d00, d01, d02), (d10, d11, d12), (d20, d21, d22)), (i, j, k)) \<Rightarrow>
          (g0 + d00 * s0 * of_int i + d01 * s1 * of_int j + d02 * s2 * of_int k,
           g1 + d10 * s0 * of_int i + d11 * s1 * of_int j + d12 * s2 * of_int k,
           g2 + d20 * s0 * of_int i + d21 * s1 * of_int j + d22 * s2 * of_int k))"

text \<open>
  Python's \<^verbatim>\<open>slice(start, stop).indices(n)\<close> for step 1, as first index and length: a negative
  bound counts from the end, and a bound outside \<open>[0, n]\<close> is clamped, not refused.
\<close>

definition slice_indices :: "int \<Rightarrow> int \<Rightarrow> nat \<Rightarrow> nat \<times> nat" where
  "slice_indices start stop n =
     (let lo = (if start < 0 then max (start + int n) 0 else min start (int n));
          hi = (if stop < 0 then max (stop + int n) 0 else min stop (int n))
      in (nat lo, nat (hi - lo)))"

text \<open>
  \<^verbatim>\<open>image[a0:b0, a1:b1, a2:b2]\<close> on a SimpleITK image: a new image holding the voxels of the
  three slices, with the origin moved to the first voxel kept. The argument is not changed.
\<close>

definition getitem :: "'p Image \<Rightarrow> int \<times> int \<Rightarrow> int \<times> int \<Rightarrow> int \<times> int \<Rightarrow> 'p Image" where
  "getitem im r0 r1 r2 =
     (case Size im of (n0, n1, n2) \<Rightarrow>
        let (f0, l0) = slice_indices (fst r0) (snd r0) n0;
            (f1, l1) = slice_indices (fst r1) (snd r1) n1;
            (f2, l2) = slice_indices (fst r2) (snd r2) n2
        in im\<lparr>Size := (l0, l1, l2),
               Origin := TransformIndexToPhysicalPoint im (int f0, int f1, int f2),
               Pixel := (\<lambda>(i, j, k). Pixel im (f0 + i, f1 + j, f2 + k))\<rparr>)"

text \<open>
  \<^verbatim>\<open>crop_from_center(images, ijk_coordinates, width, height, depth, i_offset=0, j_offset=0)\<close>.
  \<^verbatim>\<open>ijk_coordinates[idx]\<close> raises IndexError when there are fewer centres than images.
\<close>

definition crop_from_center ::
  "'p Image list \<Rightarrow> int triple list \<Rightarrow> int \<Rightarrow> int \<Rightarrow> int \<Rightarrow> int \<Rightarrow> int \<Rightarrow> error + 'p Image list" where
  "crop_from_center images ijk_coordinates width height depth i_offset j_offset =
     mapM (\<lambda>(idx, img).
        if idx < length ijk_coordinates
        then (case ijk_coordinates ! idx of (ci, cj, ck) \<Rightarrow>
          Inr (getitem img
            ((ci - i_offset) - width div 2, (ci - i_offset) + \<lceil>of_int width / (2 :: rat)\<rceil>)
            ((cj - j_offset) - height div 2, (cj - j_offset) + \<lceil>of_int height / (2 :: rat)\<rceil>)
            (ck - depth div 2, ck + \<lceil>of_int depth / (2 :: rat)\<rceil>)))
        else Inl IndexError) (enumerate 0 images)"

text \<open>
  The window of the specification, per axis: from \<open>centre - offset - size // 2\<close> up to, and
  not including, \<open>centre - offset + ceil (size / 2)\<close>.
\<close>

definition window_lo :: "int \<Rightarrow> int \<Rightarrow> int \<Rightarrow> int" where
  "window_lo centre offset extent = centre - offset - extent div 2"

definition window_hi :: "int \<Rightarrow> int \<Rightarrow> int \<Rightarrow> int" where
  "window_hi centre offset extent = centre - offset + \<lceil>of_int extent / (2 :: rat)\<rceil>"

definition window_in_bounds :: "'p Image \<Rightarrow> int triple \<Rightarrow> int \<Rightarrow> int \<Rightarrow> int \<Rightarrow> int \<Rightarrow> int \<Rightarrow> bool" where
  "window_in_bounds im centre width height depth i_offset j_offset =
     (case (Size im, centre) of ((n0, n1, n2), (ci, cj, ck)) \<Rightarrow>
        0 \<le> width \<and> 0 \<le> height \<and> 0 \<le> depth
        \<and> 0 \<le> window_lo ci i_offset width \<and> window_hi ci i_offset width \<le> int n0
        \<and> 0 \<le> window_lo cj j_offset height \<and> window_hi cj j_offset height \<le> int n1
        \<and> 0 \<le> window_lo ck 0 depth \<and> window_hi ck 0 depth \<le> int n2)"

text \<open>The sub-volume of one image that \<open>crop_from_center\<close> takes around one centre.\<close>

definition crop_window :: "'p Image \<Rightarrow> int triple \<Rightarrow> int \<Rightarrow> int \<Rightarrow> int \<Rightarrow> int \<Rightarrow> int \<Rightarrow> 'p Image" where
  "crop_window im centre width height depth i_offset j_offset =
     (case centre of (ci, cj, ck) \<Rightarrow>
       getitem im (window_lo ci i_offset width, window_hi ci i_offset width)
         (window_lo cj j_offset height, window_hi cj j_offset height)
         (window_lo ck 0 depth, window_hi ck 0 depth))"

section \<open>Random number generation\<close>

text \<open>
  The generators behind \<^verbatim>\<open>np.random\<close> and \<^verbatim>\<open>random\<close> are a state \<open>'s\<close> and a function
  that draws the next raw number from it; each library call below consumes the draws it
  needs and returns the new state, so that every outcome the library can produce is the
  outcome of some generator.
\<close>

type_synonym 's gen = "'s \<Rightarrow> nat \<times> 's"

text \<open>\<^verbatim>\<open>np.random.choice(a)\<close>: one element of \<open>a\<close>; ValueError on an empty \<open>a\<close>.\<close>

definition random_choice :: "'s gen \<Rightarrow> 'a list \<Rightarrow> 's \<Rightarrow> error + ('a \<times> 's)" where
  "random_choice g a s =
     (if a = [] then Inl ValueError
      else case g s of (r, s') \<Rightarrow> Inr (a ! (r mod length a), s'))"

text \<open>\<^verbatim>\<open>np.random.randint(low, high)\<close>: an integer of \<open>[low, high)\<close>; ValueError when it is empty.\<close>

definition randint :: "'s gen \<Rightarrow> int \<Rightarrow> int \<Rightarrow> 's \<Rightarrow> error + (int \<times> 's)" where
  "randint g low high s =
     (if high \<le> low then Inl ValueError
      else case g s of (r, s') \<Rightarrow> Inr (low + int r mod (high - low), s'))"

text \<open>
  \<^verbatim>\<open>rotated_crop(patient_images, crop_width, crop_height, crop_depth, degrees, lps, ijk_values)\<close>
  with \<open>show_result\<close> at its default \<open>False\<close>, which is how the repository calls it.
  \<^verbatim>\<open>rotation3d\<close> comes from the module \<^verbatim>\<open>image_augmentation\<close> and is a parameter.
\<close>

definition rotated_crop ::
  "'s gen \<Rightarrow> ('p Image \<Rightarrow> 'd \<Rightarrow> rat triple \<Rightarrow> 'p Image) \<Rightarrow> 'p Image list \<Rightarrow> int \<Rightarrow> int \<Rightarrow> int
     \<Rightarrow> 'd list \<Rightarrow> rat triple \<Rightarrow> int triple list \<Rightarrow> 's \<Rightarrow> error + ('p Image list \<times> 's)" where
  "rotated_crop g rotation3d patient_images crop_width crop_height crop_depth degrees lps ijk_values s =
     (case random_choice g degrees s of
        Inl e \<Rightarrow> Inl e
      | Inr (degree, s1) \<Rightarrow>
          let rotated_patient_images = map (\<lambda>patient. rotation3d patient degree lps) patient_images
          in case randint g (- 7) 7 s1 of
               Inl e \<Rightarrow> Inl e
             | Inr (i_offset, s2) \<Rightarrow>
                 (case randint g (- 7) 7 s2 of
                    Inl e \<Rightarrow> Inl e
                  | Inr (j_offset, s3) \<Rightarrow>
                      (case crop_from_center rotated_patient_images ijk_values
                              crop_width crop_height crop_depth i_offset j_offset of
                         Inl e \<Rightarrow> Inl e
                       | Inr crop \<Rightarrow> Inr (crop, s3))))"

section \<open>Patch dataset builder\<close>

text \<open>
  A row of the findings table: the patient identifier, \<^verbatim>\<open>int(patient["ClinSig"])\<close> (read in
  train mode only) and the coordinates parsed from the column \<^verbatim>\<open>pos\<close>.
\<close>

record finding =
  patient_id :: string
  ClinSig :: int
  pos :: "rat triple"

text \<open>
  An element of a list in the dictionary \<open>crops\<close>: the pair \<^verbatim>\<open>(crop, cancer_marker)\<close> in train
  mode, the bare \<^verbatim>\<open>crop\<close> otherwise.
\<close>

datatype 'p patch = Labelled "'p Image list" int | Unlabelled "'p Image list"

text \<open>Python's \<^verbatim>\<open>xs[i]\<close> on a list: a negative index counts from the end.\<close>

definition py_nth :: "'a list \<Rightarrow> int \<Rightarrow> error + 'a" where
  "py_nth xs i =
     (if 0 \<le> i \<and> i < int (length xs) then Inr (xs ! nat i)
      else if i < 0 \<and> - int (length xs) \<le> i then Inr (xs ! nat (int (length xs) + i))
      else Inl IndexError)"

text \<open>\<^verbatim>\<open>str(n)\<close> for an integer, as \<^verbatim>\<open>"{}".format(n)\<close> prints it.\<close>

function str_nat :: "nat \<Rightarrow> string" where
  "str_nat n = (if n < 10 then [''0123456789'' ! n] else str_nat (n div 10) @ [''0123456789'' ! (n mod 10)])"
  by pat_completeness auto
termination
  by (relation "measure id") auto

definition str_int :: "int \<Rightarrow> string" where
  "str_int i = (if i < 0 then CHR ''-'' # str_nat (nat (- i)) else str_nat (nat i))"

text \<open>The key of a finding in train mode, \<^verbatim>\<open>"{}_{}".format(patient_id, cancer_marker)\<close>.\<close>

definition train_key :: "string \<Rightarrow> int \<Rightarrow> string" where
  "train_key pid cancer_marker = pid @ ''_'' @ str_int cancer_marker"

text \<open>
  \<^verbatim>\<open>if key in crops.keys(): crops[key].append(v) else: crops[key] = [v]\<close>, on the dictionary
  as a map.
\<close>

definition dict_append :: "(string \<rightharpoonup> 'v list) \<Rightarrow> string \<Rightarrow> 'v \<Rightarrow> (string \<rightharpoonup> 'v list)" where
  "dict_append crops key v =
     (case crops key of Some vs \<Rightarrow> crops(key \<mapsto> vs @ [v]) | None \<Rightarrow> crops(key \<mapsto> [v]))"

text \<open>
  \<^verbatim>\<open>for key in invalid_keys: crops.pop(key)\<close>: \<^verbatim>\<open>dict.pop\<close> without a default raises
  KeyError on a key the dictionary does not hold. The set \<open>invalid_keys\<close> is the list of its
  distinct elements.
\<close>

fun pop_all :: "string list \<Rightarrow> (string \<rightharpoonup> 'v) \<Rightarrow> error + (string \<rightharpoonup> 'v)" where
  "pop_all [] crops = Inr crops"
| "pop_all (key # keys) crops =
     (case crops key of None \<Rightarrow> Inl KeyError | Some v \<Rightarrow> pop_all keys (crops(key := None)))"

text \<open>\<^verbatim>\<open>np.sum(sitk.GetArrayFromImage(im).flatten())\<close>: the sum of all voxels of the image.\<close>

definition voxel_sum :: "('p :: comm_monoid_add) Image \<Rightarrow> 'p" where
  "voxel_sum im =
     (case Size im of (n0, n1, n2) \<Rightarrow>
        (\<Sum>i \<leftarrow> [0..<n0]. \<Sum>j \<leftarrow> [0..<n1]. \<Sum>k \<leftarrow> [0..<n2]. Pixel im (i, j, k)))"

text \<open>\<^verbatim>\<open>im.GetSize() != (crop_width, crop_height, crop_depth)\<close>, negated.\<close>

definition size_is :: "'p Image \<Rightarrow> int \<Rightarrow> int \<Rightarrow> int \<Rightarrow> bool" where
  "size_is im crop_width crop_height crop_depth =
     (case Size im of (n0, n1, n2) \<Rightarrow>
        int n0 = crop_width \<and> int n1 = crop_height \<and> int n2 = crop_depth)"

text \<open>
  \<^verbatim>\<open>sitk.GetImageFromArray(arr)\<close> for a three-dimensional array of shape \<open>(d, h, w)\<close>: an
  image of size \<open>(w, h, d)\<close> with unit spacing, zero origin and identity direction, whose
  voxel \<open>(i, j, k)\<close> is \<open>arr[k, j, i]\<close>.
\<close>

definition GetImageFromArray :: "nat triple \<Rightarrow> (nat triple \<Rightarrow> 'p) \<Rightarrow> 'p Image" where
  "GetImageFromArray shape arr =
     (case shape of (d, h, w) \<Rightarrow>
        \<lparr>Size = (w, h, d), Spacing = (1, 1, 1), Origin = (0, 0, 0),
         Direction = ((1, 0, 0), (0, 1, 0), (0, 0, 1)), PixelIDValue = 9,
         Pixel = (\<lambda>(i, j, k). arr (k, j, i))\<rparr>)"

text \<open>
  \<^verbatim>\<open>np.random.rand(d, h, w)\<close>: an array of that shape of draws from \<open>[0, 1)\<close>, ValueError on
  a negative dimension. How the generator fills the array is the parameter \<open>rand\<close>.
\<close>

type_synonym ('s, 'p) rand = "'s \<Rightarrow> nat triple \<Rightarrow> (nat triple \<Rightarrow> 'p) \<times> 's"

definition random_rand :: "('s, 'p) rand \<Rightarrow> int \<Rightarrow> int \<Rightarrow> int \<Rightarrow> 's \<Rightarrow> error + ((nat triple \<Rightarrow> 'p) \<times> 's)" where
  "random_rand rand d h w s =
     (if d < 0 \<or> h < 0 \<or> w < 0 then Inl ValueError else Inr (rand s (nat d, nat h, nat w)))"

text \<open>
  The comprehension
  \<^verbatim>\<open>[sitk.GetImageFromArray(np.random.rand(crop_depth, crop_height, crop_width)) for _ in range(3)]\<close>.
\<close>

definition noise_crop ::
  "('s, 'p) rand \<Rightarrow> int \<Rightarrow> int \<Rightarrow> int \<Rightarrow> 's \<Rightarrow> error + ('p Image list \<times> 's)" where
  "noise_crop rand crop_width crop_height crop_depth s =
     (case random_rand rand crop_depth crop_height crop_width s of
        Inl e \<Rightarrow> Inl e
      | Inr (a0, s1) \<Rightarrow>
     (case random_rand rand crop_depth crop_height crop_width s1 of
        Inl e \<Rightarrow> Inl e
      | Inr (a1, s2) \<Rightarrow>
     (case random_rand rand crop_depth crop_height crop_width s2 of
        Inl e \<Rightarrow> Inl e
      | Inr (a2, s3) \<Rightarrow>
          let shape = (nat crop_depth, nat crop_height, nat crop_width)
          in Inr ([GetImageFromArray shape a0, GetImageFromArray shape a1,
                   GetImageFromArray shape a2], s3))))"

text \<open>
  What \<open>image_cropper\<close> is given besides the table: the generator and its array filler, the
  rotation of \<^verbatim>\<open>image_augmentation\<close>, the padding filter's \<^verbatim>\<open>Execute\<close>, SimpleITK's
  \<^verbatim>\<open>TransformPhysicalPointToIndex\<close>, Python's \<^verbatim>\<open>int\<close> on a string, and the crop
  dimensions.
\<close>

record ('s, 'p) cropper_env =
  env_gen :: "'s gen"
  env_rand :: "('s, 'p) rand"
  env_rotation3d :: "'p Image \<Rightarrow> int \<Rightarrow> rat triple \<Rightarrow> 'p Image"
  env_padding :: "'p Image \<Rightarrow> 'p Image"
  env_to_index :: "'p Image \<Rightarrow> rat triple \<Rightarrow> int triple"
  env_int :: "string \<Rightarrow> error + int"
  crop_width :: int
  crop_height :: int
  crop_depth :: int

text \<open>The state of the loops: the dictionary, the invalid keys and the generator.\<close>

type_synonym ('s, 'p) cropper_state = "(string \<rightharpoonup> 'p patch list) \<times> string list \<times> 's"

text \<open>
  The crop of one iteration of \<^verbatim>\<open>for crop_num in range(num_crops_per_image)\<close>: the centre
  crop for \<open>crop_num = 0\<close>, a rotated crop otherwise.
\<close>

definition make_crop ::
  "('s, 'p) cropper_env \<Rightarrow> 'p Image list \<Rightarrow> rat triple \<Rightarrow> int triple list \<Rightarrow> nat \<Rightarrow> 's
     \<Rightarrow> error + ('p Image list \<times> 's)" where
  "make_crop env patient_images lps ijk_vals crop_num s =
     (if crop_num = 0
      then (case crop_from_center patient_images ijk_vals
                   (crop_width env) (crop_height env) (crop_depth env) 0 0 of
              Inl e \<Rightarrow> Inl e
            | Inr crop \<Rightarrow> Inr (crop, s))
      else rotated_crop (env_gen env) (env_rotation3d env) patient_images
             (crop_width env) (crop_height env) (crop_depth env)
             (map uminus [5, 10, 15, 20, 25] @ [5, 10, 15, 20, 25]) lps ijk_vals s)"

text \<open>The body of the loop over \<open>crop_num\<close>, from the size check on.\<close>

definition crop_iteration ::
  "('s, 'p :: comm_monoid_add) cropper_env \<Rightarrow> bool \<Rightarrow> finding \<Rightarrow> 'p Image list \<Rightarrow> rat triple
     \<Rightarrow> int triple list \<Rightarrow> ('s, 'p) cropper_state \<Rightarrow> nat \<Rightarrow> error + ('s, 'p) cropper_state" where
  "crop_iteration env train patient patient_images lps ijk_vals st crop_num =
     (case st of (crops, invalid_keys, s) \<Rightarrow>
      case make_crop env patient_images lps ijk_vals crop_num s of
        Inl e \<Rightarrow> Inl e
      | Inr (crop, s1) \<Rightarrow>
          let invalid_sizes =
                filter (\<lambda>im. \<not> size_is im (crop_width env) (crop_height env) (crop_depth env)) crop
          in if train
             then
               let key = train_key (patient_id patient) (ClinSig patient)
               in if invalid_sizes \<noteq> []
                  then Inr (crops, List.insert key invalid_keys, s1)
                  else if voxel_sum (crop ! 0) = 0
                  then Inr (dict_append crops key (Labelled crop (ClinSig patient)),
                            List.insert key invalid_keys, s1)
                  else Inr (dict_append crops key (Labelled crop (ClinSig patient)),
                            invalid_keys, s1)
             else
               if voxel_sum (crop ! 0) = 0
               then (case noise_crop (env_rand env) (crop_width env) (crop_height env)
                            (crop_depth env) s1 of
                       Inl e \<Rightarrow> Inl e
                     | Inr (crop', s2) \<Rightarrow>
                         Inr (dict_append crops (patient_id patient) (Unlabelled crop'),
                              invalid_keys, s2))
               else Inr (dict_append crops (patient_id patient) (Unlabelled crop),
                         invalid_keys, s1))"

text \<open>A loop whose body may raise: the first exception ends it.\<close>

fun foldM :: "('b \<Rightarrow> 'a \<Rightarrow> error + 'b) \<Rightarrow> 'a list \<Rightarrow> 'b \<Rightarrow> error + 'b" where
  "foldM f [] st = Inr st"
| "foldM f (x # xs) st = (case f st x of Inl e \<Rightarrow> Inl e | Inr st' \<Rightarrow> foldM f xs st')"

text \<open>
  The three entries \<^verbatim>\<open>[t2_resampled[n], adc_resampled[n], bval_resampled[n]]\<close> of a patient,
  with \<^verbatim>\<open>n = int(patient_id[-4:])\<close>. The suffix \<^verbatim>\<open>patient_id[-4:]\<close> is the last four
  characters, or the whole identifier if it is shorter.
\<close>

definition patient_entries ::
  "('s, 'p) cropper_env \<Rightarrow> 'p entry list triple \<Rightarrow> finding \<Rightarrow> error + 'p entry list" where
  "patient_entries env resampled_images patient =
     (case resampled_images of (t2_resampled, adc_resampled, bval_resampled) \<Rightarrow>
      case env_int env (drop (length (patient_id patient) - 4) (patient_id patient)) of
        Inl e \<Rightarrow> Inl e
      | Inr n \<Rightarrow>
          mapM (\<lambda>resampled. py_nth resampled n) [t2_resampled, adc_resampled, bval_resampled])"

text \<open>The padded images of a patient none of whose entries is blank, and their centres.\<close>

definition padded_images :: "('s, 'p) cropper_env \<Rightarrow> 'p entry list \<Rightarrow> 'p Image list" where
  "padded_images env entries =
     map (\<lambda>p_image. case p_image of Vol im \<Rightarrow> env_padding env im) entries"

definition ijk_vals_of :: "('s, 'p) cropper_env \<Rightarrow> 'p Image list \<Rightarrow> rat triple \<Rightarrow> int triple list" where
  "ijk_vals_of env patient_images lps = map (\<lambda>im. env_to_index env im lps) patient_images"

text \<open>The body of \<^verbatim>\<open>for _, patient in findings_dataframe.iterrows()\<close>.\<close>

definition finding_iteration ::
  "('s, 'p :: comm_monoid_add) cropper_env \<Rightarrow> 'p entry list triple \<Rightarrow> nat \<Rightarrow> bool
     \<Rightarrow> ('s, 'p) cropper_state \<Rightarrow> finding \<Rightarrow> error + ('s, 'p) cropper_state" where
  "finding_iteration env resampled_images num_crops_per_image train st patient =
     (case patient_entries env resampled_images patient of
        Inl e \<Rightarrow> Inl e
      | Inr entries \<Rightarrow>
          if Blank \<in> set entries then Inr st
          else
            let patient_images = padded_images env entries;
                lps = pos patient;
                ijk_vals = ijk_vals_of env patient_images lps
            in foldM (crop_iteration env train patient patient_images lps ijk_vals)
                 [0..<num_crops_per_image] st)"

text \<open>
  \<^verbatim>\<open>image_cropper(findings_dataframe, resampled_images, padding, crop_width, crop_height,
  crop_depth, num_crops_per_image=1, train=True)\<close>; \<^verbatim>\<open>exit()\<close> raises SystemExit. The result is
  the dictionary, and the state of the generator.
\<close>

definition image_cropper ::
  "('s, 'p :: comm_monoid_add) cropper_env \<Rightarrow> finding list \<Rightarrow> 'p entry list triple \<Rightarrow> int \<Rightarrow> bool
     \<Rightarrow> 's \<Rightarrow> error + ((string \<rightharpoonup> 'p patch list) \<times> 's)" where
  "image_cropper env findings_dataframe resampled_images num_crops_per_image train s =
     (if num_crops_per_image < 1 then Inl SystemExit
      else
        case foldM (finding_iteration env resampled_images (nat num_crops_per_image) train)
               findings_dataframe (Map.empty, [], s) of
          Inl e \<Rightarrow> Inl e
        | Inr (crops, invalid_keys, s') \<Rightarrow>
            (case pop_all invalid_keys crops of
               Inl e \<Rightarrow> Inl e
             | Inr crops' \<Rightarrow> Inr (crops', s')))"





section \<open>Sample provider\<close>

text \<open>
  A floating-point value as far as the sample provider tells them apart: a finite number
  (idealised as a rational), an infinity, or not-a-number.
\<close>

datatype fval = Finite rat | PInf | NInf | NaN



text \<open>A three-dimensional numpy array, indexed \<open>[k, j, i]\<close>: a list of planes of rows.\<close>

type_synonym 'a ndarray = "'a list list list"






text \<open>
  The fields of a \<^verbatim>\<open>ProstateImages\<close> object that \<^verbatim>\<open>__getitem__\<close> reads. The filter
  \<^verbatim>\<open>self.normalize\<close> is SimpleITK's \<^verbatim>\<open>NormalizeImageFilter\<close>; the patch store is the two
  functions from a file name (index and label digit, or index) to the image in the file, if
  there is one.
\<close>

record ProstateImages =
  train :: bool
  normalize_strategy :: nat
  normalize :: "rat Image \<Rightarrow> fval Image"
  mean_tensor :: "fval ndarray"
  std_tensor :: "fval ndarray"
  mapping :: "(nat \<rightharpoonup> nat) list"
  map_num :: nat
  first_index :: nat
  train_files :: "nat \<Rightarrow> nat \<Rightarrow> rat Image option"
  test_files :: "nat \<Rightarrow> rat Image option"






section \<open>Training loop\<close>

text \<open>
  Models are objects: the store maps an address to the weights of the model there, and
  \<open>next_free\<close> is the first address not yet allocated. \<^verbatim>\<open>copy.deepcopy(model)\<close> allocates
  a new object holding a copy of the weights.
\<close>

record 'w store =
  weights :: "nat \<Rightarrow> 'w"
  next_free :: nat

definition deepcopy :: "'w store \<Rightarrow> nat \<Rightarrow> nat \<times> 'w store" where
  "deepcopy st model =
     (next_free st,
      st\<lparr>weights := (weights st)(next_free st := weights st model),
           next_free := Suc (next_free st)\<rparr>)"

text \<open>
  What one epoch computes from the weights at its start: the weights after the optimizer
  steps of the training pass, and the metrics appended to \<open>auc_train\<close>, \<open>f1_train\<close>,
  \<open>auc_eval\<close> and \<open>f1_eval\<close> with the confusion matrix of the validation pass. The batches,
  the network, the loss, the optimizer and scikit-learn's metrics are behind this one
  parameter of the model, which may raise (division by a zero number of batches).
\<close>

record 'c epoch_metrics =
  auc_train :: rat
  f1_train :: rat
  auc_eval :: rat
  f1_eval :: rat
  confusion :: 'c

type_synonym ('w, 'c) run_epoch = "'w \<Rightarrow> error + ('w \<times> 'c epoch_metrics)"

text \<open>
  The locals that the best epoch assigns together: \<open>best_model\<close>, \<open>conf_matrix\<close>,
  \<open>auc_train_of_best_model\<close>, \<open>f1_train_of_best_model\<close> and \<open>best_f1\<close>. They are unbound
  (\<open>None\<close>) until the first assignment; \<open>best_auc\<close> starts at 0.
\<close>

record 'c best =
  best_model :: nat
  conf_matrix :: 'c
  auc_train_of_best_model :: rat
  f1_train_of_best_model :: rat
  best_f1 :: rat

type_synonym ('w, 'c) train_state = "'w store \<times> rat \<times> 'c best option"

text \<open>
  The body of \<^verbatim>\<open>for epoch in range(epochs)\<close>: the optimizer updates the object \<open>model\<close> in
  place, and an epoch whose validation AUC exceeds \<open>best_auc\<close> stores a deep copy.
\<close>

definition epoch_iteration ::
  "('w, 'c) run_epoch \<Rightarrow> nat \<Rightarrow> ('w, 'c) train_state \<Rightarrow> error + ('w, 'c) train_state" where
  "epoch_iteration run_epoch model state =
     (case state of (st, best_auc, best) \<Rightarrow>
      case run_epoch (weights st model) of
        Inl e \<Rightarrow> Inl e
      | Inr (w', m) \<Rightarrow>
          let st1 = st\<lparr>weights := (weights st)(model := w')\<rparr>
          in if best_auc < auc_eval m
             then (case deepcopy st1 model of
                     (copy, st2) \<Rightarrow>
                       Inr (st2, auc_eval m,
                            Some \<lparr>best_model = copy, conf_matrix = confusion m,
                                  auc_train_of_best_model = auc_train m,
                                  f1_train_of_best_model = f1_train m,
                                  best_f1 = f1_eval m\<rparr>))
             else Inr (st1, best_auc, best))"

fun epochs_loop ::
  "('w, 'c) run_epoch \<Rightarrow> nat \<Rightarrow> nat \<Rightarrow> ('w, 'c) train_state \<Rightarrow> error + ('w, 'c) train_state" where
  "epochs_loop run_epoch model 0 state = Inr state"
| "epochs_loop run_epoch model (Suc n) state =
     (case epoch_iteration run_epoch model state of
        Inl e \<Rightarrow> Inl e
      | Inr state' \<Rightarrow> epochs_loop run_epoch model n state')"

text \<open>
  \<^verbatim>\<open>train_model(train_data, val_data, model, epochs, optimizer, loss_function, softmax=False,
  show=False)\<close>, the plots left out. \<^verbatim>\<open>initialize_CNN2\<close> overwrites weights of the model in
  place. The \<^verbatim>\<open>return\<close> reads \<open>best_model\<close> and the other locals of the best epoch, which
  raises UnboundLocalError when no epoch has assigned them. The result is the returned tuple
  \<open>(best_model, conf_matrix, auc_train_of_best_model, f1_train_of_best_model, best_auc,
  best_f1)\<close> and the store.
\<close>

definition train_model ::
  "('w, 'c) run_epoch \<Rightarrow> ('w \<Rightarrow> 'w) \<Rightarrow> 'w store \<Rightarrow> nat \<Rightarrow> nat \<Rightarrow> bool
     \<Rightarrow> error + ((nat \<times> 'c \<times> rat \<times> rat \<times> rat \<times> rat) \<times> 'w store)" where
  "train_model run_epoch initialize_CNN2 st model epochs softmax =
     (let st0 = (if softmax
                 then st\<lparr>weights := (weights st)(model := initialize_CNN2 (weights st model))\<rparr>
                 else st)
      in case epochs_loop run_epoch model epochs (st0, 0, None) of
           Inl e \<Rightarrow> Inl e
         | Inr (st', best_auc, best) \<Rightarrow>
             (case best of
                None \<Rightarrow> Inl UnboundLocalError
              | Some b \<Rightarrow>
                  Inr ((best_model b, conf_matrix b, auc_train_of_best_model b,
                        f1_train_of_best_model b, best_auc, best_f1 b), st')))"

section \<open>Fold partitioner\<close>

text \<open>
  \<^verbatim>\<open>random.sample(population, k)\<close>: \<open>k\<close> elements of the population, each taken out of the
  pool once chosen; ValueError when \<open>k\<close> is negative or exceeds the size of the population.
\<close>

fun draw_sample :: "'s gen \<Rightarrow> nat list \<Rightarrow> nat \<Rightarrow> 's \<Rightarrow> nat list \<times> 's" where
  "draw_sample g pool 0 s = ([], s)"
| "draw_sample g pool (Suc k) s =
     (case g s of (r, s') \<Rightarrow>
        let x = pool ! (r mod length pool)
        in case draw_sample g (remove1 x pool) k s' of (xs, s'') \<Rightarrow> (x # xs, s''))"

definition random_sample :: "'s gen \<Rightarrow> nat set \<Rightarrow> int \<Rightarrow> 's \<Rightarrow> error + (nat list \<times> 's)" where
  "random_sample g population k s =
     (if 0 \<le> k \<and> k \<le> int (card population)
      then Inr (draw_sample g (sorted_list_of_set population) (nat k) s)
      else Inl ValueError)"

text \<open>\<^verbatim>\<open>int(x)\<close> of a float: truncation towards zero.\<close>

definition py_int :: "rat \<Rightarrow> int" where
  "py_int x = (if 0 \<le> x then \<lfloor>x\<rfloor> else \<lceil>x\<rceil>)"

text \<open>
  The two nested loops that turn a set of patient indices into the set of their patch
  indices: \<open>key * num_crops + pos\<close> for \<open>pos\<close> in \<open>range(num_crops)\<close>.
\<close>

definition image_indices :: "nat \<Rightarrow> nat set \<Rightarrow> nat set" where
  "image_indices num_crops keys = (\<Union>key \<in> keys. (\<lambda>pos. key * num_crops + pos) ` {0..<num_crops})"

text \<open>
  The re-keying loop \<^verbatim>\<open>for index in indices: mapping[key] = index; key += 1\<close>. The dictionary
  is the list of its items in insertion order. The order in which Python iterates over a
  set is the interpreter's; it is the parameter \<open>iter\<close>.
\<close>

definition key_mapping :: "(nat set \<Rightarrow> nat list) \<Rightarrow> nat set \<Rightarrow> (nat \<times> nat) list" where
  "key_mapping iter indices = enumerate 0 (iter indices)"

definition iteration_order :: "(nat set \<Rightarrow> nat list) \<Rightarrow> bool" where
  "iteration_order iter \<longleftrightarrow> (\<forall>S. finite S \<longrightarrow> set (iter S) = S \<and> distinct (iter S))"

text \<open>The label of a patient: the last character of the key of its first patch.\<close>

definition patient_label :: "(string \<times> 'c) list \<Rightarrow> nat \<Rightarrow> nat \<Rightarrow> char" where
  "patient_label patient_images num_crops idx = last (fst (patient_images ! (idx * num_crops)))"

text \<open>One iteration of the loop \<^verbatim>\<open>for k in range(num_folds)\<close>.\<close>

definition one_fold ::
  "'s gen \<Rightarrow> (nat set \<Rightarrow> nat list) \<Rightarrow> (string \<times> 'c) list \<Rightarrow> nat \<Rightarrow> nat set \<Rightarrow> nat set \<Rightarrow> nat set \<Rightarrow> int
     \<Rightarrow> 's \<Rightarrow> error + (((nat \<times> nat) list \<times> (nat \<times> nat) list) \<times> 's)" where
  "one_fold g iter patient_images num_crops patient_indices non_cancer_patients cancer_patients
       num_each_class_fold s =
     (case random_sample g non_cancer_patients num_each_class_fold s of
        Inl e \<Rightarrow> Inl e
      | Inr (non_cancer_in_fold, s1) \<Rightarrow>
     (case random_sample g cancer_patients num_each_class_fold s1 of
        Inl e \<Rightarrow> Inl e
      | Inr (cancer_in_fold, s2) \<Rightarrow>
          let fold_set = set non_cancer_in_fold \<union> set cancer_in_fold;
              out_of_fold = patient_indices - fold_set;
              cancer_out_of_fold =
                {idx \<in> out_of_fold. patient_label patient_images num_crops idx = CHR ''1''}
          in case random_sample g (out_of_fold - cancer_out_of_fold)
                    (int (card cancer_out_of_fold)) s2 of
               Inl e \<Rightarrow> Inl e
             | Inr (non_cancer_out_of_fold, s3) \<Rightarrow>
                 let out_of_fold_set = cancer_out_of_fold \<union> set non_cancer_out_of_fold;
                     fold_image_indices = image_indices num_crops fold_set;
                     out_of_fold_image_indices = image_indices num_crops out_of_fold_set;
                     fold_key_mapping = key_mapping iter fold_image_indices;
                     train_key_mapping = key_mapping iter out_of_fold_image_indices
                 in Inr ((fold_key_mapping, train_key_mapping), s3)))"

text \<open>The loop over the folds, appending each fold's two mappings in turn.\<close>

fun fold_loop ::
  "('s \<Rightarrow> error + (('m \<times> 'm) \<times> 's)) \<Rightarrow> nat \<Rightarrow> 's \<Rightarrow> error + (('m list \<times> 'm list) \<times> 's)" where
  "fold_loop step 0 s = Inr (([], []), s)"
| "fold_loop step (Suc k) s =
     (case step s of
        Inl e \<Rightarrow> Inl e
      | Inr ((fold_key_mapping, train_key_mapping), s') \<Rightarrow>
          (case fold_loop step k s' of
             Inl e \<Rightarrow> Inl e
           | Inr ((fold_key_mappings, train_key_mappings), s'') \<Rightarrow>
               Inr ((fold_key_mapping # fold_key_mappings,
                     train_key_mapping # train_key_mappings), s'')))"

text \<open>
  \<^verbatim>\<open>write_cropped_images_train_and_folds(cropped_images, num_crops, num_folds=5, fold_fraction=0.2)\<close>.
  The dictionary \<open>cropped_images\<close> is the list of its items in insertion order; the patches
  written to disk are not part of the result. \<open>num_crops\<close> and \<open>num_folds\<close> are counts.
  The result is the pair of lists of mappings, and the state of the generator.
\<close>

definition patient_images_of :: "(string \<times> 'c list) list \<Rightarrow> (string \<times> 'c) list" where
  "patient_images_of cropped_images =
     concat (map (\<lambda>(key, crops). map (\<lambda>patient_image. (key, patient_image)) crops) cropped_images)"

definition patient_indices_of :: "(string \<times> 'c) list \<Rightarrow> nat \<Rightarrow> nat set" where
  "patient_indices_of patient_images num_crops = {0..<length patient_images div num_crops}"

definition non_cancer_patients_of :: "(string \<times> 'c) list \<Rightarrow> nat \<Rightarrow> nat set" where
  "non_cancer_patients_of patient_images num_crops =
     {idx \<in> patient_indices_of patient_images num_crops.
        patient_label patient_images num_crops idx = CHR ''0''}"

definition cancer_patients_of :: "(string \<times> 'c) list \<Rightarrow> nat \<Rightarrow> nat set" where
  "cancer_patients_of patient_images num_crops =
     {idx \<in> patient_indices_of patient_images num_crops.
        patient_label patient_images num_crops idx = CHR ''1''}"

definition num_each_class_fold_of :: "rat \<Rightarrow> nat set \<Rightarrow> int" where
  "num_each_class_fold_of fold_fraction cancer_patients =
     py_int (fold_fraction * of_nat (card cancer_patients))"

definition write_cropped_images_train_and_folds ::
  "'s gen \<Rightarrow> (nat set \<Rightarrow> nat list) \<Rightarrow> (string \<times> 'c list) list \<Rightarrow> nat \<Rightarrow> nat \<Rightarrow> rat \<Rightarrow> 's
     \<Rightarrow> error + (((nat \<times> nat) list list \<times> (nat \<times> nat) list list) \<times> 's)" where
  "write_cropped_images_train_and_folds g iter cropped_images num_crops num_folds fold_fraction s =
     (let patient_images = patient_images_of cropped_images
      in if num_crops = 0 then Inl ZeroDivisionError
         else
           let patient_indices = patient_indices_of patient_images num_crops
           in if \<exists>idx \<in> patient_indices. fst (patient_images ! (idx * num_crops)) = []
              then Inl IndexError
              else
                let non_cancer_patients = non_cancer_patients_of patient_images num_crops;
                    cancer_patients = cancer_patients_of patient_images num_crops;
                    num_each_class_fold = num_each_class_fold_of fold_fraction cancer_patients
                in fold_loop
                     (one_fold g iter patient_images num_crops patient_indices
                        non_cancer_patients cancer_patients num_each_class_fold)
                     num_folds s)"

text \<open>The patch indices a mapping refers to: the values of the dictionary.\<close>

definition mapping_values :: "(nat \<times> nat) list \<Rightarrow> nat set" where
  "mapping_values m = snd ` set m"

text \<open>A small volume and an interpolation, for the concrete runs below.\<close>

definition ex_volume :: "int Image" where
  "ex_volume = \<lparr>Size = (5, 4, 2), Spacing = (1, 1, 3 / 2), Origin = (0, 0, 0),
     Direction = ((1, 0, 0), (0, 1, 0), (0, 0, 1)), PixelIDValue = 2,
     Pixel = (\<lambda>(i, j, k). int (i + j + k))\<rparr>"

definition ex_interp :: "ResampleImageFilter \<Rightarrow> int Image \<Rightarrow> nat triple \<Rightarrow> int" where
  "ex_interp flt im = (\<lambda>p. if Interpolator flt = sitkNearestNeighbor then Pixel im p else 0)"

text \<open>The volume of the first end-to-end scenario, a stand-in rotation and a generator.\<close>

definition ex_scan :: "int Image" where
  "ex_scan = \<lparr>Size = (64, 64, 32), Spacing = (1, 1, 1), Origin = (0, 0, 0),
     Direction = ((1, 0, 0), (0, 1, 0), (0, 0, 1)), PixelIDValue = 2,
     Pixel = (\<lambda>(i, j, k). int (i + 64 * j + 4096 * k))\<rparr>"


definition ex_gen :: "nat gen" where
  "ex_gen s = (s, Suc s)"

text \<open>Seven patients with two patches each: three with cancer, four without.\<close>

definition ex_cropped :: "(string \<times> unit list) list" where
  "ex_cropped = [(''P0_1'', [(), ()]), (''P1_0'', [(), ()]), (''P2_1'', [(), ()]),
     (''P3_0'', [(), ()]), (''P4_1'', [(), ()]), (''P5_0'', [(), ()]), (''P6_0'', [(), ()])]"

text \<open>The mappings of two folds of these patients, as the run below returns them.\<close>

definition ex_fold_key_mappings :: "(nat \<times> nat) list list" where
  "ex_fold_key_mappings =
     [[(0, 2), (1, 3), (2, 4), (3, 5)], [(0, 2), (1, 3), (2, 8), (3, 9)]]"

definition ex_train_key_mappings :: "(nat \<times> nat) list list" where
  "ex_train_key_mappings =
     [[(0, 0), (1, 1), (2, 8), (3, 9), (4, 10), (5, 11), (6, 12), (7, 13)],
      [(0, 0), (1, 1), (2, 4), (3, 5), (4, 6), (5, 7), (6, 12), (7, 13)]]"

text \<open>
  An all-zero volume, an array filler, and the rest of what \<open>image_cropper\<close> needs, for a
  patch of 4 by 2 by 1 voxels around a given centre.
\<close>

definition ex_zero :: "rat Image" where
  "ex_zero = \<lparr>Size = (4, 4, 2), Spacing = (1, 1, 1), Origin = (0, 0, 0),
     Direction = ((1, 0, 0), (0, 1, 0), (0, 0, 1)), PixelIDValue = 9, Pixel = (\<lambda>p. 0)\<rparr>"

definition ex_rand :: "(nat, rat) rand" where
  "ex_rand s shape = ((\<lambda>p. 1 / 2), Suc s)"

definition ex_env :: "int triple \<Rightarrow> (nat, rat) cropper_env" where
  "ex_env centre = \<lparr>env_gen = ex_gen, env_rand = ex_rand,
     env_rotation3d = (\<lambda>im degree lps. im), env_padding = (\<lambda>im. im),
     env_to_index = (\<lambda>im lps. centre), env_int = (\<lambda>digits. Inr 0),
     crop_width = 4, crop_height = 2, crop_depth = 1\<rparr>"

definition ex_finding :: finding where
  "ex_finding = \<lparr>patient_id = ''ProstateX-0000'', ClinSig = 1, pos = (0, 0, 0)\<rparr>"






text \<open>
  An epoch that moves the weights (a number here) by one and whose validation predictions
  are all wrong, so that the area under the curve is 0; a store with one model.
\<close>

definition ex_run_epoch :: "(int, unit) run_epoch" where
  "ex_run_epoch w =
     Inr (w + 1, \<lparr>auc_train = 1 / 2, f1_train = 0, auc_eval = 0, f1_eval = 0, confusion = ()\<rparr>)"

definition ex_store :: "int store" where
  "ex_store = \<lparr>weights = (\<lambda>a. 0), next_free = 1\<rparr>"

section \<open>Properties of the resampler\<close>

lemma mapM_length: "mapM f xs = Inr ys \<Longrightarrow> length ys = length xs"
  by (induction xs arbitrary: ys) (auto split: sum.splits)

lemma mapM_nth: "mapM f xs = Inr ys \<Longrightarrow> i < length xs \<Longrightarrow> f (xs ! i) = Inr (ys ! i)"
proof (induction xs arbitrary: ys i)
  case Nil
  then show ?case by simp
next
  case (Cons x xs)
  then show ?case
    by (cases i) (auto split: sum.splits)
qed




lemma np_round_examples: "np_round (5 / 2) = 2" "np_round 2 = 2" "np_round 1 = 1"
  by code_simp+

lemma ex_volume_resampled:
  "\<exists>out. resample_all_images ex_interp [Blank, Vol ex_volume] (2, 2, 3) True = Inr out"
  by (simp add: resample_all_images_def resample_image_def ex_volume_def np_round_examples Let_def)



text \<open>
  C10. \<open>resample_all_images\<close> returns the same result for \<open>some_missing = True\<close> and
  \<open>some_missing = False\<close>; whenever it returns, the result has one entry per input entry,
  an empty entry is passed through unchanged and an image is replaced by
  \<open>resample_image\<close> of it with \<open>is_label\<close> at its default \<open>False\<close>.
\<close>

theorem resample_all_images_flag_irrelevant:
  "resample_all_images interp modality out_spacing True
     = resample_all_images interp modality out_spacing False
   \<and> (\<forall>out. resample_all_images interp modality out_spacing some_missing = Inr out \<longrightarrow>
         length out = length modality \<and>
         (\<forall>i < length modality.
            case modality ! i of
              Blank \<Rightarrow> out ! i = Blank
            | Vol im \<Rightarrow> \<exists>r. resample_image interp im out_spacing False = Inr r \<and> out ! i = Vol r))"
proof (intro conjI allI impI)
  show "resample_all_images interp modality out_spacing True
     = resample_all_images interp modality out_spacing False"
    by (simp add: resample_all_images_def)
next
  fix out
  assume run: "resample_all_images interp modality out_spacing some_missing = Inr out"
  let ?f = "\<lambda>mod_image. case mod_image of
                    Vol im \<Rightarrow> map_sum id Vol (resample_image interp im out_spacing False)
                  | Blank \<Rightarrow> Inr Blank"
  from run have m: "mapM ?f modality = Inr out"
    by (simp add: resample_all_images_def split: if_splits)
  from m show "length out = length modality"
    by (rule mapM_length)
  fix i
  assume i: "i < length modality"
  from mapM_nth [OF m i] have step: "?f (modality ! i) = Inr (out ! i)" .
  show "case modality ! i of
          Blank \<Rightarrow> out ! i = Blank
        | Vol im \<Rightarrow> \<exists>r. resample_image interp im out_spacing False = Inr r \<and> out ! i = Vol r"
  proof (cases "modality ! i")
    case Blank
    with step show ?thesis by simp
  next
    case (Vol im)
    with step show ?thesis
      by (cases "resample_image interp im out_spacing False") auto
  qed
qed

theorem resample_all_images_flag_irrelevant_witness:
  "\<exists>out. resample_all_images ex_interp [Blank, Vol ex_volume] (2, 2, 3) True = Inr out
      \<and> resample_all_images ex_interp [Blank, Vol ex_volume] (2, 2, 3) False = Inr out
      \<and> length out = 2 \<and> out ! 0 = Blank
      \<and> (\<exists>r. resample_image ex_interp ex_volume (2, 2, 3) False = Inr r \<and> out ! 1 = Vol r)"
proof -
  from ex_volume_resampled obtain out
    where run: "resample_all_images ex_interp [Blank, Vol ex_volume] (2, 2, 3) True = Inr out"
    by blast
  note inst = resample_all_images_flag_irrelevant
    [of ex_interp "[Blank, Vol ex_volume]" "(2, 2, 3)" True]
  from inst run have len: "length out = 2" and
    ent: "\<forall>i<2. case [Blank, Vol ex_volume] ! i of
            Blank \<Rightarrow> out ! i = Blank
          | Vol im \<Rightarrow> \<exists>r. resample_image ex_interp im (2, 2, 3) False = Inr r \<and> out ! i = Vol r"
    by auto
  from ent [rule_format, of 0] have "out ! 0 = Blank" by simp
  moreover from ent [rule_format, of 1]
  have "\<exists>r. resample_image ex_interp ex_volume (2, 2, 3) False = Inr r \<and> out ! 1 = Vol r"
    by simp
  moreover from inst run
  have "resample_all_images ex_interp [Blank, Vol ex_volume] (2, 2, 3) False = Inr out"
    by simp
  ultimately show ?thesis using run len by blast
qed

section \<open>Properties of the geometric cropper\<close>

lemma ceiling_half: "\<lceil>of_int w / (2 :: rat)\<rceil> = (w + 1) div 2"
proof -
  have "\<lceil>of_int w / (2 :: rat)\<rceil> = - \<lfloor>of_int (- w) / (2 :: rat)\<rfloor>"
    by (simp add: ceiling_def)
  also have "\<lfloor>of_int (- w) / (2 :: rat)\<rfloor> = (- w) div 2"
    using floor_divide_of_int_eq [of "- w" 2, where ?'a = rat] by simp
  finally show ?thesis by presburger
qed

lemma window_extent: "window_hi c off w - window_lo c off w = w"
  unfolding window_hi_def window_lo_def ceiling_half by presburger

lemma slice_indices_in_bounds:
  assumes "0 \<le> a" "a \<le> b" "b \<le> int n"
  shows "slice_indices a b n = (nat a, nat (b - a))"
  using assms by (auto simp: slice_indices_def Let_def min_def max_def)

lemma mapM_all_Inr: "(\<And>x. x \<in> set xs \<Longrightarrow> f x = Inr (h x)) \<Longrightarrow> mapM f xs = Inr (map h xs)"
  by (induction xs) auto

lemma crop_from_center_total:
  assumes "length images \<le> length ijk"
  shows "crop_from_center images ijk w h d ioff joff
           = Inr (map (\<lambda>(idx, img). crop_window img (ijk ! idx) w h d ioff joff) (enumerate 0 images))"
  unfolding crop_from_center_def using assms
  by (intro mapM_all_Inr)
    (auto simp: in_set_enumerate_eq crop_window_def window_lo_def window_hi_def split: prod.splits)

lemma crop_window_in_bounds:
  assumes "window_in_bounds im (ci, cj, ck) w h d ioff joff"
  shows "Size (crop_window im (ci, cj, ck) w h d ioff joff) = (nat w, nat h, nat d)"
    and "Pixel (crop_window im (ci, cj, ck) w h d ioff joff) (a, b, c)
       = Pixel im (nat (window_lo ci ioff w) + a, nat (window_lo cj joff h) + b, nat (window_lo ck 0 d) + c)"
proof -
  obtain n0 n1 n2 where sz: "Size im = (n0, n1, n2)" by (cases "Size im") auto
  from assms sz have b: "0 \<le> w" "0 \<le> h" "0 \<le> d"
    "0 \<le> window_lo ci ioff w" "window_hi ci ioff w \<le> int n0"
    "0 \<le> window_lo cj joff h" "window_hi cj joff h \<le> int n1"
    "0 \<le> window_lo ck 0 d" "window_hi ck 0 d \<le> int n2"
    by (simp_all add: window_in_bounds_def)
  have s0: "slice_indices (window_lo ci ioff w) (window_hi ci ioff w) n0 = (nat (window_lo ci ioff w), nat w)"
    using slice_indices_in_bounds [of "window_lo ci ioff w" "window_hi ci ioff w" n0] b window_extent [of ci ioff w]
    by simp
  have s1: "slice_indices (window_lo cj joff h) (window_hi cj joff h) n1 = (nat (window_lo cj joff h), nat h)"
    using slice_indices_in_bounds [of "window_lo cj joff h" "window_hi cj joff h" n1] b window_extent [of cj joff h]
    by simp
  have s2: "slice_indices (window_lo ck 0 d) (window_hi ck 0 d) n2 = (nat (window_lo ck 0 d), nat d)"
    using slice_indices_in_bounds [of "window_lo ck 0 d" "window_hi ck 0 d" n2] b window_extent [of ck 0 d]
    by simp
  show "Size (crop_window im (ci, cj, ck) w h d ioff joff) = (nat w, nat h, nat d)"
    by (simp add: crop_window_def getitem_def sz s0 s1 s2)
  show "Pixel (crop_window im (ci, cj, ck) w h d ioff joff) (a, b, c)
       = Pixel im (nat (window_lo ci ioff w) + a, nat (window_lo cj joff h) + b, nat (window_lo ck 0 d) + c)"
    by (simp add: crop_window_def getitem_def sz s0 s1 s2)
qed

text \<open>
  C3. When every image has a centre and its window
  \<open>[centre_i - i_offset - width // 2, centre_i - i_offset + ceil (width / 2))\<close> times the
  analogous ranges for \<open>j\<close> and for \<open>k\<close> (no offset) lies inside the image,
  \<open>crop_from_center\<close> returns one crop per image, of size exactly
  \<open>(width, height, depth)\<close>, whose voxel \<open>(a, b, c)\<close> is the voxel of the image at the
  window's lower corner plus \<open>(a, b, c)\<close>. The function is a pure function of its arguments:
  it reads the images and builds new ones.
\<close>

theorem crop_from_center_in_bounds:
  assumes len: "length images \<le> length ijk"
    and inb: "\<forall>idx < length images. window_in_bounds (images ! idx) (ijk ! idx) w h d ioff joff"
  shows "\<exists>crop. crop_from_center images ijk w h d ioff joff = Inr crop
           \<and> length crop = length images
           \<and> (\<forall>idx < length images.
                Size (crop ! idx) = (nat w, nat h, nat d)
                \<and> (\<forall>a b c. a < nat w \<and> b < nat h \<and> c < nat d \<longrightarrow>
                     Pixel (crop ! idx) (a, b, c)
                       = Pixel (images ! idx)
                           (nat (window_lo (fst (ijk ! idx)) ioff w) + a,
                            nat (window_lo (fst (snd (ijk ! idx))) joff h) + b,
                            nat (window_lo (snd (snd (ijk ! idx))) 0 d) + c)))"
proof -
  let ?crop = "map (\<lambda>(idx, img). crop_window img (ijk ! idx) w h d ioff joff) (enumerate 0 images)"
  have run: "crop_from_center images ijk w h d ioff joff = Inr ?crop"
    by (rule crop_from_center_total [OF len])
  have nth: "?crop ! idx = crop_window (images ! idx) (ijk ! idx) w h d ioff joff" if "idx < length images" for idx
    using that by (simp add: nth_enumerate_eq)
  show ?thesis
  proof (intro exI conjI allI impI)
    show "crop_from_center images ijk w h d ioff joff = Inr ?crop" by (rule run)
    show "length ?crop = length images" by simp
  next
    fix idx assume i: "idx < length images"
    obtain ci cj ck where c: "ijk ! idx = (ci, cj, ck)" by (cases "ijk ! idx") auto
    from inb i c have wb: "window_in_bounds (images ! idx) (ci, cj, ck) w h d ioff joff" by auto
    show "Size (?crop ! idx) = (nat w, nat h, nat d)"
      using crop_window_in_bounds(1) [OF wb] by (simp add: nth [OF i] c)
    fix a b c'
    show "Pixel (?crop ! idx) (a, b, c')
                       = Pixel (images ! idx)
                           (nat (window_lo (fst (ijk ! idx)) ioff w) + a,
                            nat (window_lo (fst (snd (ijk ! idx))) joff h) + b,
                            nat (window_lo (snd (snd (ijk ! idx))) 0 d) + c')"
      using crop_window_in_bounds(2) [OF wb] by (simp add: nth [OF i] c)
  qed
qed


theorem crop_from_center_in_bounds_witness:
  "window_in_bounds ex_scan (32, 32, 16) 32 32 3 0 0
   \<and> (\<exists>crop. crop_from_center [ex_scan] [(32, 32, 16)] 32 32 3 0 0 = Inr crop
         \<and> length crop = 1 \<and> Size (crop ! 0) = (32, 32, 3)
         \<and> Pixel (crop ! 0) (1, 2, 0) = Pixel ex_scan (17, 18, 15))"
proof -
  have half: "\<lceil>32 / (2 :: rat)\<rceil> = 16" "\<lceil>3 / (2 :: rat)\<rceil> = 2"
    using ceiling_half [of 32] ceiling_half [of 3] by simp_all
  have inb: "window_in_bounds ex_scan (32, 32, 16) 32 32 3 0 0"
    by (simp add: window_in_bounds_def window_lo_def window_hi_def ex_scan_def half)
  have lo: "window_lo 32 0 32 = 16" "window_lo 16 0 3 = 15"
    by (simp_all add: window_lo_def)
  from crop_from_center_in_bounds [of "[ex_scan]" "[(32, 32, 16)]" 32 32 3 0 0] inb
  obtain crop where run: "crop_from_center [ex_scan] [(32, 32, 16)] 32 32 3 0 0 = Inr crop"
    and len: "length crop = 1"
    and sz: "Size (crop ! 0) = (32, 32, 3)"
    and px: "\<forall>a b c. a < 32 \<and> b < 32 \<and> c < 3 \<longrightarrow>
          Pixel (crop ! 0) (a, b, c) = Pixel ex_scan (16 + a, 16 + b, 15 + c)"
    by (auto simp: lo)
  from px [rule_format, of 1 2 0] have "Pixel (crop ! 0) (1, 2, 0) = Pixel ex_scan (17, 18, 15)"
    by simp
  with inb run len sz show ?thesis by blast
qed






section \<open>Properties of the fold partitioner\<close>

lemma draw_sample_props:
  "distinct pool \<Longrightarrow> k \<le> length pool \<Longrightarrow> draw_sample g pool k s = (xs, s')
     \<Longrightarrow> distinct xs \<and> set xs \<subseteq> set pool \<and> length xs = k"
proof (induction k arbitrary: pool s xs s')
  case 0
  then show ?case by simp
next
  case (Suc k)
  obtain r s1 where g: "g s = (r, s1)" by (cases "g s")
  let ?x = "pool ! (r mod length pool)"
  obtain ys s2 where rec: "draw_sample g (remove1 ?x pool) k s1 = (ys, s2)"
    by (cases "draw_sample g (remove1 ?x pool) k s1")
  from Suc.prems(2) have ne: "0 < length pool" by (cases pool) simp_all
  then have mem: "?x \<in> set pool" by simp
  have d: "distinct (remove1 ?x pool)" using Suc.prems(1) by simp
  have l: "k \<le> length (remove1 ?x pool)"
    using Suc.prems(2) mem by (simp add: length_remove1)
  from Suc.IH [OF d l rec] have ih: "distinct ys" "set ys \<subseteq> set (remove1 ?x pool)" "length ys = k"
    by simp_all
  from Suc.prems(3) g rec have xs: "xs = ?x # ys" by (simp add: Let_def)
  from ih(2) Suc.prems(1) have "?x \<notin> set ys" "set ys \<subseteq> set pool"
    by auto
  with ih mem xs show ?case by simp
qed

lemma random_sample_props:
  assumes "finite population" and "random_sample g population k s = Inr (xs, s')"
  shows "distinct xs" "set xs \<subseteq> population" "int (card (set xs)) = k"
proof -
  from assms(2) have k: "0 \<le> k" "k \<le> int (card population)"
    and d: "draw_sample g (sorted_list_of_set population) (nat k) s = (xs, s')"
    by (auto simp: random_sample_def split: if_splits)
  have "distinct (sorted_list_of_set population)" by simp
  moreover have "nat k \<le> length (sorted_list_of_set population)"
    using k assms(1) by simp
  ultimately have r: "distinct xs \<and> set xs \<subseteq> set (sorted_list_of_set population) \<and> length xs = nat k"
    using d by (rule draw_sample_props)
  from r show "distinct xs" by simp
  from r assms(1) show "set xs \<subseteq> population" by simp
  from r k show "int (card (set xs)) = k" by (simp add: distinct_card)
qed

lemma image_indices_blocks:
  "image_indices num_crops keys = (\<Union>key \<in> keys. {key * num_crops ..< key * num_crops + num_crops})"
proof -
  have "(\<lambda>pos. key * num_crops + pos) ` {0..<num_crops} = {key * num_crops ..< key * num_crops + num_crops}" for key
  proof (intro set_eqI iffI)
    fix i assume "i \<in> {key * num_crops ..< key * num_crops + num_crops}"
    then have "i = key * num_crops + (i - key * num_crops)" "i - key * num_crops \<in> {0..<num_crops}"
      by auto
    then show "i \<in> (\<lambda>pos. key * num_crops + pos) ` {0..<num_crops}" by (rule image_eqI)
  qed auto
  then show ?thesis by (simp add: image_indices_def)
qed

lemma image_indices_div:
  "i \<in> image_indices num_crops keys \<longleftrightarrow> 0 < num_crops \<and> i div num_crops \<in> keys"
proof
  assume "i \<in> image_indices num_crops keys"
  then obtain key where k: "key \<in> keys" "key * num_crops \<le> i" "i < key * num_crops + num_crops"
    unfolding image_indices_blocks by auto
  then have "i div num_crops = key"
    by (intro div_nat_eqI) (simp_all add: mult.commute)
  with k show "0 < num_crops \<and> i div num_crops \<in> keys" by auto
next
  assume a: "0 < num_crops \<and> i div num_crops \<in> keys"
  have "i = (i div num_crops) * num_crops + i mod num_crops" by simp
  moreover have "i mod num_crops \<in> {0..<num_crops}" using a by simp
  ultimately have "i \<in> (\<lambda>pos. (i div num_crops) * num_crops + pos) ` {0..<num_crops}"
    by (rule image_eqI)
  with a show "i \<in> image_indices num_crops keys" unfolding image_indices_def by blast
qed

lemma finite_image_indices: "finite keys \<Longrightarrow> finite (image_indices num_crops keys)"
  by (simp add: image_indices_def)

lemma mapping_values_key_mapping:
  "iteration_order iter \<Longrightarrow> finite S \<Longrightarrow> mapping_values (key_mapping iter S) = S"
proof -
  assume a: "iteration_order iter" "finite S"
  have "snd ` set (enumerate 0 (iter S)) = set (iter S)"
    by (metis enumerate_eq_zip map_snd_zip length_upt list.set_map minus_nat.diff_0 add_0)
  with a show ?thesis by (simp add: mapping_values_def key_mapping_def iteration_order_def)
qed

lemma one_fold_result:
  assumes run: "one_fold g iter patient_images num_crops P N C n s = Inr ((fm, tm), s')"
    and iter: "iteration_order iter" and fin: "finite P" "finite N" "finite C"
  shows "\<exists>Vn Vc Tn. Vn \<subseteq> N \<and> Vc \<subseteq> C \<and> int (card Vn) = n \<and> int (card Vc) = n
           \<and> Tn \<subseteq> (P - (Vn \<union> Vc)) - {idx \<in> P - (Vn \<union> Vc). patient_label patient_images num_crops idx = CHR ''1''}
           \<and> card Tn = card {idx \<in> P - (Vn \<union> Vc). patient_label patient_images num_crops idx = CHR ''1''}
           \<and> mapping_values fm = image_indices num_crops (Vn \<union> Vc)
           \<and> mapping_values tm = image_indices num_crops
                ({idx \<in> P - (Vn \<union> Vc). patient_label patient_images num_crops idx = CHR ''1''} \<union> Tn)"
proof -
  from run obtain xn s1 where r1: "random_sample g N n s = Inr (xn, s1)"
    by (auto simp: one_fold_def split: sum.splits)
  from run r1 obtain xc s2 where r2: "random_sample g C n s1 = Inr (xc, s2)"
    by (auto simp: one_fold_def split: sum.splits)
  let ?V = "set xn \<union> set xc"
  let ?Cout = "{idx \<in> P - ?V. patient_label patient_images num_crops idx = CHR ''1''}"
  from run r1 r2 obtain xt s3 where r3: "random_sample g ((P - ?V) - ?Cout) (int (card ?Cout)) s2 = Inr (xt, s3)"
    by (auto simp: one_fold_def Let_def split: sum.splits)
  from run r1 r2 r3 have fm: "fm = key_mapping iter (image_indices num_crops ?V)"
    and tm: "tm = key_mapping iter (image_indices num_crops (?Cout \<union> set xt))"
    by (auto simp: one_fold_def Let_def)
  note p1 = random_sample_props [OF fin(2) r1]
  note p2 = random_sample_props [OF fin(3) r2]
  have finO: "finite ((P - ?V) - ?Cout)" using fin(1) by simp
  note p3 = random_sample_props [OF finO r3]
  have finC: "finite ?Cout" using fin(1) by simp
  have v1: "mapping_values fm = image_indices num_crops ?V"
    unfolding fm by (rule mapping_values_key_mapping [OF iter]) (simp add: finite_image_indices)
  have v2: "mapping_values tm = image_indices num_crops (?Cout \<union> set xt)"
    unfolding tm using finC
    by (intro mapping_values_key_mapping [OF iter] finite_image_indices finite_UnI) simp_all
  from p3(3) have c3: "card (set xt) = card ?Cout" by simp
  show ?thesis
    apply (rule exI [of _ "set xn"], rule exI [of _ "set xc"], rule exI [of _ "set xt"])
    using p1(2,3) p2(2,3) p3(2) c3 v1 v2 by blast
qed

lemma fold_loop_result:
  "fold_loop step K s = Inr ((fms, tms), s') \<Longrightarrow>
     length fms = K \<and> length tms = K
     \<and> (\<forall>k < K. \<exists>t t'. step t = Inr ((fms ! k, tms ! k), t'))"
proof (induction K arbitrary: s fms tms s')
  case 0
  then show ?case by simp
next
  case (Suc K)
  from Suc.prems obtain fm tm s1 where st: "step s = Inr ((fm, tm), s1)"
    by (auto split: sum.splits)
  from Suc.prems st obtain fms' tms' where rec: "fold_loop step K s1 = Inr ((fms', tms'), s')"
    and eq: "fms = fm # fms'" "tms = tm # tms'"
    by (auto split: sum.splits)
  from Suc.IH [OF rec] have ih: "length fms' = K" "length tms' = K"
    "\<forall>k < K. \<exists>t t'. step t = Inr ((fms' ! k, tms' ! k), t')" by simp_all
  have "\<exists>t t'. step t = Inr ((fms ! k, tms ! k), t')" if "k < Suc K" for k
  proof (cases k)
    case 0
    with st eq show ?thesis by auto
  next
    case (Suc j)
    with that ih(3) eq show ?thesis by auto
  qed
  with ih eq show ?case by simp
qed



lemma partition_folds:
  assumes iter: "iteration_order iter"
    and run: "write_cropped_images_train_and_folds g iter cropped_images num_crops num_folds
                fold_fraction s = Inr ((fms, tms), s')"
  shows "0 < num_crops" and "length fms = num_folds" and "length tms = num_folds"
    and "\<And>k. k < num_folds \<Longrightarrow> \<exists>Vn Vc Tn.
          Vn \<subseteq> non_cancer_patients_of (patient_images_of cropped_images) num_crops
          \<and> Vc \<subseteq> cancer_patients_of (patient_images_of cropped_images) num_crops
          \<and> int (card Vn) = num_each_class_fold_of fold_fraction
               (cancer_patients_of (patient_images_of cropped_images) num_crops)
          \<and> int (card Vc) = num_each_class_fold_of fold_fraction
               (cancer_patients_of (patient_images_of cropped_images) num_crops)
          \<and> Tn \<subseteq> patient_indices_of (patient_images_of cropped_images) num_crops - (Vn \<union> Vc)
                 - cancer_patients_of (patient_images_of cropped_images) num_crops
          \<and> card Tn = card (cancer_patients_of (patient_images_of cropped_images) num_crops - Vc)
          \<and> mapping_values (fms ! k) = image_indices num_crops (Vn \<union> Vc)
          \<and> mapping_values (tms ! k) = image_indices num_crops
               ((cancer_patients_of (patient_images_of cropped_images) num_crops - Vc) \<union> Tn)"
proof -
  let ?pi = "patient_images_of cropped_images"
  let ?P = "patient_indices_of ?pi num_crops"
  let ?N = "non_cancer_patients_of ?pi num_crops"
  let ?C = "cancer_patients_of ?pi num_crops"
  let ?n = "num_each_class_fold_of fold_fraction ?C"
  let ?step = "one_fold g iter ?pi num_crops ?P ?N ?C ?n"
  from run show pos: "0 < num_crops"
    by (auto simp: write_cropped_images_train_and_folds_def Let_def split: if_splits)
  from run have loop: "fold_loop ?step num_folds s = Inr ((fms, tms), s')"
    by (auto simp: write_cropped_images_train_and_folds_def Let_def split: if_splits)
  have fin: "finite ?P" "finite ?N" "finite ?C"
    by (simp_all add: patient_indices_of_def non_cancer_patients_of_def cancer_patients_of_def)
  note fl = fold_loop_result [OF loop]
  from fl show "length fms = num_folds" and "length tms = num_folds" by simp_all
  show "\<exists>Vn Vc Tn. Vn \<subseteq> ?N \<and> Vc \<subseteq> ?C \<and> int (card Vn) = ?n \<and> int (card Vc) = ?n
          \<and> Tn \<subseteq> ?P - (Vn \<union> Vc) - ?C \<and> card Tn = card (?C - Vc)
          \<and> mapping_values (fms ! k) = image_indices num_crops (Vn \<union> Vc)
          \<and> mapping_values (tms ! k) = image_indices num_crops ((?C - Vc) \<union> Tn)"
    if k: "k < num_folds" for k
  proof -
    from fl k obtain t t' where st: "?step t = Inr ((fms ! k, tms ! k), t')" by blast
    from one_fold_result [OF st iter fin] obtain Vn Vc Tn where
      r: "Vn \<subseteq> ?N" "Vc \<subseteq> ?C" "int (card Vn) = ?n" "int (card Vc) = ?n"
        "Tn \<subseteq> (?P - (Vn \<union> Vc)) - {idx \<in> ?P - (Vn \<union> Vc). patient_label ?pi num_crops idx = CHR ''1''}"
        "card Tn = card {idx \<in> ?P - (Vn \<union> Vc). patient_label ?pi num_crops idx = CHR ''1''}"
        "mapping_values (fms ! k) = image_indices num_crops (Vn \<union> Vc)"
        "mapping_values (tms ! k) = image_indices num_crops
                ({idx \<in> ?P - (Vn \<union> Vc). patient_label ?pi num_crops idx = CHR ''1''} \<union> Tn)"
      by blast
    have cout: "{idx \<in> ?P - (Vn \<union> Vc). patient_label ?pi num_crops idx = CHR ''1''} = ?C - Vc"
      using r(1) by (auto simp: cancer_patients_of_def non_cancer_patients_of_def)
    have tn: "Tn \<subseteq> ?P - (Vn \<union> Vc) - ?C"
      using r(5) r(2) unfolding cout by blast
    from r(1-4) tn r(6-8) show ?thesis unfolding cout by blast
  qed
qed



text \<open>
  C1. Whenever the fold partitioner returns, it returns \<open>num_folds\<close> validation mappings
  and as many training mappings, and for every fold \<open>k\<close> the patch indices that are values of
  \<open>fold_key_mappings[k]\<close> are disjoint from those of \<open>train_key_mappings[k]\<close>; moreover every
  index \<open>i\<close> of the training mapping belongs to patient \<open>i // num_crops\<close>, whose whole block
  of \<open>num_crops\<close> patch indices is outside the validation mapping of that fold.
\<close>

theorem fold_train_disjoint:
  assumes "iteration_order iter"
    and "write_cropped_images_train_and_folds g iter cropped_images num_crops num_folds
           fold_fraction s = Inr ((fold_key_mappings, train_key_mappings), s')"
  shows "length fold_key_mappings = num_folds \<and> length train_key_mappings = num_folds
     \<and> (\<forall>k < num_folds.
          mapping_values (fold_key_mappings ! k) \<inter> mapping_values (train_key_mappings ! k) = {}
          \<and> (\<forall>i \<in> mapping_values (train_key_mappings ! k).
                i div num_crops \<in> patient_indices_of (patient_images_of cropped_images) num_crops
                \<and> {i div num_crops * num_crops ..< i div num_crops * num_crops + num_crops}
                    \<inter> mapping_values (fold_key_mappings ! k) = {}))"
proof (intro conjI allI impI ballI)
  show "length fold_key_mappings = num_folds" by (rule partition_folds(2) [OF assms])
  show "length train_key_mappings = num_folds" by (rule partition_folds(3) [OF assms])
next
  fix k assume k: "k < num_folds"
  define P where "P = patient_indices_of (patient_images_of cropped_images) num_crops"
  define C where "C = cancer_patients_of (patient_images_of cropped_images) num_crops"
  define N where "N = non_cancer_patients_of (patient_images_of cropped_images) num_crops"
  define F where "F = mapping_values (fold_key_mappings ! k)"
  define T where "T = mapping_values (train_key_mappings ! k)"
  have CP: "C \<subseteq> P" and CN: "C \<inter> N = {}"
    by (auto simp: C_def N_def P_def cancer_patients_of_def non_cancer_patients_of_def)
  from partition_folds(4) [OF assms k] obtain Vn Vc Tn where
    vn: "Vn \<subseteq> N" and tn: "Tn \<subseteq> P - (Vn \<union> Vc) - C"
    and fm: "F = image_indices num_crops (Vn \<union> Vc)"
    and tm: "T = image_indices num_crops ((C - Vc) \<union> Tn)"
    unfolding P_def C_def N_def F_def T_def by blast
  have out: "((C - Vc) \<union> Tn) \<inter> (Vn \<union> Vc) = {}"
    using tn vn CN by blast
  have sub: "(C - Vc) \<union> Tn \<subseteq> P" using tn CP by blast
  have no: "j \<notin> F" if "j div num_crops \<in> (C - Vc) \<union> Tn" for j
  proof
    assume "j \<in> F"
    then have "j div num_crops \<in> Vn \<union> Vc" unfolding fm by (simp add: image_indices_div)
    with that out show False by blast
  qed
  have inT: "0 < num_crops \<and> i div num_crops \<in> (C - Vc) \<union> Tn" if "i \<in> T" for i
    using that unfolding tm by (simp add: image_indices_div)
  have "F \<inter> T = {}"
  proof (rule ccontr)
    assume "F \<inter> T \<noteq> {}"
    then obtain i where "i \<in> F" "i \<in> T" by blast
    with no [of i] inT [of i] show False by blast
  qed
  then show "mapping_values (fold_key_mappings ! k) \<inter> mapping_values (train_key_mappings ! k) = {}"
    unfolding F_def T_def .
  fix i assume "i \<in> mapping_values (train_key_mappings ! k)"
  then have i: "i \<in> T" unfolding T_def .
  note p = inT [OF i]
  from p sub show "i div num_crops \<in> patient_indices_of (patient_images_of cropped_images) num_crops"
    unfolding P_def by blast
  have same: "j div num_crops = i div num_crops"
    if "j \<in> {i div num_crops * num_crops ..< i div num_crops * num_crops + num_crops}" for j
    using that by (intro div_nat_eqI) (simp_all add: mult.commute)
  have "{i div num_crops * num_crops ..< i div num_crops * num_crops + num_crops} \<inter> F = {}"
  proof (rule ccontr)
    assume "{i div num_crops * num_crops ..< i div num_crops * num_crops + num_crops} \<inter> F \<noteq> {}"
    then obtain j where j: "j \<in> {i div num_crops * num_crops ..< i div num_crops * num_crops + num_crops}"
      and jF: "j \<in> F" by blast
    from same [OF j] p have "j div num_crops \<in> (C - Vc) \<union> Tn" by simp
    from no [OF this] jF show False by blast
  qed
  then show "{i div num_crops * num_crops ..< i div num_crops * num_crops + num_crops}
                    \<inter> mapping_values (fold_key_mappings ! k) = {}"
    unfolding F_def .
qed




lemma iteration_order_sorted: "iteration_order sorted_list_of_set"
  by (simp add: iteration_order_def)



lemma ex_run:
  "write_cropped_images_train_and_folds ex_gen sorted_list_of_set ex_cropped 2 2 (1 / 2) 0
     = Inr ((ex_fold_key_mappings, ex_train_key_mappings), 8)"
  by code_simp

theorem fold_train_disjoint_witness:
  "iteration_order sorted_list_of_set
   \<and> write_cropped_images_train_and_folds ex_gen sorted_list_of_set ex_cropped 2 2 (1 / 2) 0
       = Inr ((ex_fold_key_mappings, ex_train_key_mappings), 8)
   \<and> mapping_values (ex_fold_key_mappings ! 0) \<inter> mapping_values (ex_train_key_mappings ! 0) = {}
   \<and> 8 \<in> mapping_values (ex_train_key_mappings ! 0)
   \<and> 8 div 2 \<in> patient_indices_of (patient_images_of ex_cropped) 2
   \<and> {8 div 2 * 2 ..< 8 div 2 * 2 + 2} \<inter> mapping_values (ex_fold_key_mappings ! 0) = {}"
proof -
  have k: "(0::nat) < 2" by simp
  note r = fold_train_disjoint [OF iteration_order_sorted ex_run]
  note c = r [THEN conjunct2, THEN conjunct2, THEN spec, THEN mp, OF k]
  have m: "8 \<in> mapping_values (ex_train_key_mappings ! 0)"
    by (simp add: mapping_values_def ex_train_key_mappings_def)
  note b = c [THEN conjunct2, THEN bspec, OF m]
  show ?thesis
    by (rule conjI [OF iteration_order_sorted conjI [OF ex_run conjI [OF c [THEN conjunct1] conjI [OF m b]]]])
qed





section \<open>Properties of the patch dataset builder\<close>

lemma ceiling_half_examples:
  "\<lceil>1 / (2 :: rat)\<rceil> = 1" "\<lceil>4 / (2 :: rat)\<rceil> = 2" "\<lceil>2 / (2 :: rat)\<rceil> = 1"
  using ceiling_half [of 1] ceiling_half [of 4] ceiling_half [of 2] by simp_all

text \<open>
  C5. The claim asks that a finding with a crop of the wrong shape be left out of the
  returned dictionary. In train mode with one crop per image, a finding whose centre crop is
  clipped by the edge of the volume (here 3 by 2 by 1 voxels for a patch of 4 by 2 by 1) is
  added to \<open>invalid_keys\<close> and skipped before anything is stored under its key, and the
  final \<^verbatim>\<open>crops.pop(key)\<close> raises KeyError: no dictionary is returned.
\<close>

theorem image_cropper_invalid_size_KeyError:
  "image_cropper (ex_env (3, 3, 1)) [ex_finding] ([Vol ex_zero], [Vol ex_zero], [Vol ex_zero]) 1 True 0
     = Inl KeyError"
  by (simp add: image_cropper_def finding_iteration_def patient_entries_def padded_images_def
     ijk_vals_of_def py_nth_def ex_env_def ex_finding_def
     crop_iteration_def make_crop_def crop_from_center_def enumerate_eq_zip getitem_def slice_indices_def
     ex_zero_def Let_def size_is_def upt_rec ceiling_half_examples)















section \<open>Properties of the sample provider\<close>











section \<open>Properties of the training loop\<close>

text \<open>
  The deep copy is independent of the model: an object that is not the model being trained
  keeps its weights through an epoch and through any number of further epochs, and the copy
  an epoch stores is a new object holding the weights of the model after that epoch.
\<close>

lemma epoch_iteration_frame:
  assumes "epoch_iteration run_epoch model (st, best_auc, best) = Inr (st', best_auc', best')"
    and "model < next_free st"
  shows "next_free st \<le> next_free st'"
    and "\<And>a. a < next_free st \<Longrightarrow> a \<noteq> model \<Longrightarrow> weights st' a = weights st a"
    and "best' \<noteq> best \<Longrightarrow>
           best_auc < best_auc' \<and>
           (\<exists>b. best' = Some b \<and> best_model b = next_free st \<and> best_model b \<noteq> model
                \<and> next_free st' = Suc (next_free st)
                \<and> weights st' (best_model b) = weights st' model)"
  using assms
  by (auto simp: epoch_iteration_def deepcopy_def Let_def split: sum.splits if_splits prod.splits)

lemma epochs_loop_frame:
  "epochs_loop run_epoch model n (st, best_auc, best) = Inr (st', best_auc', best')
   \<Longrightarrow> model < next_free st
   \<Longrightarrow> next_free st \<le> next_free st'
       \<and> (\<forall>a. a < next_free st \<longrightarrow> a \<noteq> model \<longrightarrow> weights st' a = weights st a)"
proof (induction n arbitrary: st best_auc best)
  case 0
  then show ?case by simp
next
  case (Suc n)
  from Suc.prems(1) obtain st1 ba1 b1 where
    step: "epoch_iteration run_epoch model (st, best_auc, best) = Inr (st1, ba1, b1)"
    and rest: "epochs_loop run_epoch model n (st1, ba1, b1) = Inr (st', best_auc', best')"
    by (auto split: sum.splits)
  note f = epoch_iteration_frame(1,2) [OF step Suc.prems(2)]
  from f(1) Suc.prems(2) have m1: "model < next_free st1" by simp
  from Suc.IH [OF rest m1] have ih: "next_free st1 \<le> next_free st'"
    "\<forall>a. a < next_free st1 \<longrightarrow> a \<noteq> model \<longrightarrow> weights st' a = weights st1 a" by simp_all
  show ?case
  proof (intro conjI allI impI)
    from f(1) ih(1) show "next_free st \<le> next_free st'" by simp
  next
    fix a assume a: "a < next_free st" "a \<noteq> model"
    with f(1) have "a < next_free st1" by simp
    with ih(2) a have "weights st' a = weights st1 a" by simp
    also from f(2) [OF a] have "weights st1 a = weights st a" .
    finally show "weights st' a = weights st a" .
  qed
qed

text \<open>
  C9. The claim asks that an epoch whose validation AUC exceeds that of every earlier epoch
  leave a snapshot, and that the best snapshot be returned. The first epoch has no earlier
  one, but the code compares with \<open>best_auc = 0\<close>: when its validation AUC is 0 (every
  validation prediction wrong) nothing is stored, and with one epoch \<^verbatim>\<open>return best_model\<close>
  raises UnboundLocalError.
\<close>

theorem train_model_zero_auc_unbound:
  "train_model ex_run_epoch (\<lambda>w. w) ex_store 0 1 False = Inl UnboundLocalError"
  by (simp add: train_model_def epoch_iteration_def ex_run_epoch_def ex_store_def
      eval_nat_numeral)

end
